theory Spec2Isabelle
  imports Complex_Main "HOL-Library.Sublist"
begin

section \<open>The dating application: users, profiles, messages, matching, service\<close>

subsection \<open>Values of the TypeScript type \<open>number\<close>\<close>

text \<open>
  The program compares numbers with \<open>===\<close>, \<open>!==\<close> and \<open>>=\<close> and computes one sum,
  \<open>this.users.length + 1\<close>. A \<open>number\<close> is an IEEE double: a finite value, one of the
  two infinities, or NaN. Finite values are embedded in the reals (both zeros are
  \<open>Num 0\<close>, which \<open>===\<close> identifies as well). NaN is unequal to every number, itself
  included, and every ordering comparison with NaN is false.
\<close>

datatype number = Num real | PosInf | NegInf | NaN

text \<open>\<open>a === b\<close> on numbers; \<open>a !== b\<close> is its negation.\<close>

definition number_eq :: "number \<Rightarrow> number \<Rightarrow> bool" where
  "number_eq a b = (a = b \<and> a \<noteq> NaN)"

text \<open>\<open>a >= b\<close> on numbers.\<close>

fun number_ge :: "number \<Rightarrow> number \<Rightarrow> bool" where
  "number_ge NaN b = False"
| "number_ge a NaN = False"
| "number_ge PosInf b = True"
| "number_ge a NegInf = True"
| "number_ge (Num x) (Num y) = (y \<le> x)"
| "number_ge (Num x) PosInf = False"
| "number_ge NegInf b = False"

text \<open>The length of an array, as a number.\<close>

definition of_length :: "nat \<Rightarrow> number" where
  "of_length n = Num (real n)"

subsection \<open>src/models/User.ts\<close>

record user =
  user_id :: number
  name :: string
  email :: string
  password :: string

definition verifyPassword :: "user \<Rightarrow> string \<Rightarrow> bool" where
  "verifyPassword u inputPassword = (password u = inputPassword)"

subsection \<open>src/models/Profile.ts\<close>

text \<open>
  A profile object is represented by the values of its fields at the time of a call.
  The field \<open>interests\<close> starts empty and grows only through \<open>addInterest\<close>, so every
  list of strings is a possible value of it.
\<close>

record profile =
  user :: user
  age :: number
  bio :: string
  interests :: "string list"

text \<open>\<open>new Profile(user, age, bio)\<close>\<close>

definition new_Profile :: "user \<Rightarrow> number \<Rightarrow> string \<Rightarrow> profile" where
  "new_Profile u a b = \<lparr>user = u, age = a, bio = b, interests = []\<rparr>"

definition addInterest :: "string \<Rightarrow> profile \<Rightarrow> profile" where
  "addInterest interest p = p\<lparr>interests := interests p @ [interest]\<rparr>"

definition getInterests :: "profile \<Rightarrow> string list" where
  "getInterests p = interests p"

text \<open>
  \<open>this.interests.filter(interest => otherProfile.interests.includes(interest))\<close>,
  then the length of the filtered array.
\<close>

definition commonInterests :: "profile \<Rightarrow> profile \<Rightarrow> string list" where
  "commonInterests this otherProfile =
     filter (\<lambda>interest. interest \<in> set (interests otherProfile)) (interests this)"

definition match :: "profile \<Rightarrow> profile \<Rightarrow> nat" where
  "match this otherProfile = length (commonInterests this otherProfile)"

subsection \<open>src/models/Message.ts\<close>

text \<open>
  The timestamp of a message is the clock reading \<open>new Date()\<close> taken when the message
  is constructed; the clock is an input of the model, in milliseconds.
\<close>

type_synonym date = int

record message =
  sender :: user
  recipient :: user
  content :: string
  timestamp :: date

subsection \<open>src/models/MatchMaker.ts\<close>

text \<open>
  The four stages of the source, in its order: drop the candidates with the profile's
  own user id, pair each remaining candidate with its score, keep the pairs whose score
  reaches \<open>minScore\<close>, project the candidates out again.
\<close>

definition findMatches :: "profile \<Rightarrow> profile list \<Rightarrow> number \<Rightarrow> profile list" where
  "findMatches prof potentialMatches minScore =
     map fst
       (filter (\<lambda>m. number_ge (of_length (snd m)) minScore)
         (map (\<lambda>p. (p, match prof p))
           (filter (\<lambda>p. \<not> number_eq (user_id (user p)) (user_id (user prof)))
             potentialMatches)))"

subsection \<open>src/services/DatingService.ts\<close>

record DatingService =
  users :: "user list"
  profiles :: "profile list"
  messages :: "message list"

text \<open>\<open>new DatingService()\<close>\<close>

definition new_DatingService :: DatingService where
  "new_DatingService = \<lparr>users = [], profiles = [], messages = []\<rparr>"

text \<open>
  Each method takes the service and returns its result with the service after the call.
\<close>

definition createUser ::
  "string \<Rightarrow> string \<Rightarrow> string \<Rightarrow> DatingService \<Rightarrow> user \<times> DatingService" where
  "createUser nm em pw s =
     (let u = \<lparr>user_id = of_length (length (users s) + 1),
                name = nm, email = em, password = pw\<rparr>
      in (u, s\<lparr>users := users s @ [u]\<rparr>))"

definition createProfile ::
  "user \<Rightarrow> number \<Rightarrow> string \<Rightarrow> DatingService \<Rightarrow> profile \<times> DatingService" where
  "createProfile u a b s =
     (let p = new_Profile u a b
      in (p, s\<lparr>profiles := profiles s @ [p]\<rparr>))"

text \<open>
  \<open>now\<close> is the clock reading of the call. \<open>Array.prototype.find\<close> returns the first
  user with the id, or \<open>undefined\<close>; the result \<open>null\<close> is \<open>None\<close>.
\<close>

definition sendMessage ::
  "date \<Rightarrow> user \<Rightarrow> number \<Rightarrow> string \<Rightarrow> DatingService \<Rightarrow> message option \<times> DatingService"
  where
  "sendMessage now sndr recipientId cont s =
     (case List.find (\<lambda>u. number_eq (user_id u) recipientId) (users s) of
        Some rcpt \<Rightarrow>
          (let m = \<lparr>sender = sndr, recipient = rcpt, content = cont, timestamp = now\<rparr>
           in (Some m, s\<lparr>messages := messages s @ [m]\<rparr>))
      | None \<Rightarrow> (None, s))"

definition getMessages :: "number \<Rightarrow> DatingService \<Rightarrow> message list \<times> DatingService" where
  "getMessages userId s =
     (filter (\<lambda>m. number_eq (user_id (recipient m)) userId
                 \<or> number_eq (user_id (sender m)) userId) (messages s), s)"

definition service_findMatches ::
  "profile \<Rightarrow> number \<Rightarrow> DatingService \<Rightarrow> profile list \<times> DatingService" where
  "service_findMatches prof minScore s = (findMatches prof (profiles s) minScore, s)"

subsection \<open>Runs of the service\<close>

text \<open>
  A caller drives the service through its five methods. The service stores the profile
  objects it creates and hands the same objects out, so a caller's \<open>addInterest\<close> on a
  profile changes the stored one as well: \<open>AddInterest i x\<close> is that call on the
  \<open>i\<close>-th stored profile (on any other profile it does not touch the service).
\<close>

datatype call =
    CreateUser string string string
  | CreateProfile user number string
  | SendMessage date user number string
  | GetMessages number
  | FindMatches profile number
  | AddInterest nat string

fun exec :: "call \<Rightarrow> DatingService \<Rightarrow> DatingService" where
  "exec (CreateUser nm em pw) s = snd (createUser nm em pw s)"
| "exec (CreateProfile u a b) s = snd (createProfile u a b s)"
| "exec (SendMessage now sndr rid cont) s = snd (sendMessage now sndr rid cont s)"
| "exec (GetMessages uid) s = snd (getMessages uid s)"
| "exec (FindMatches prof minScore) s = snd (service_findMatches prof minScore s)"
| "exec (AddInterest i x) s =
     (if i < length (profiles s)
      then s\<lparr>profiles := (profiles s)[i := addInterest x (profiles s ! i)]\<rparr>
      else s)"

fun run :: "call list \<Rightarrow> DatingService \<Rightarrow> DatingService" where
  "run [] s = s"
| "run (c # cs) s = run cs (exec c s)"

subsection \<open>src/index.ts: the values of the demonstration\<close>

text \<open>
  The three users the demonstration creates in a fresh service, and the profiles of the
  first two after their \<open>addInterest\<close> calls.
\<close>

definition alice :: user where
  "alice = fst (createUser ''Alice'' ''alice@example.com'' ''password123'' new_DatingService)"

definition bob :: user where
  "bob = fst (createUser ''Bob'' ''bob@example.com'' ''password456''
           (run [CreateUser ''Alice'' ''alice@example.com'' ''password123''] new_DatingService))"

definition charlie :: user where
  "charlie = fst (createUser ''Charlie'' ''charlie@example.com'' ''password789''
           (run [CreateUser ''Alice'' ''alice@example.com'' ''password123'',
                 CreateUser ''Bob'' ''bob@example.com'' ''password456''] new_DatingService))"

definition aliceProfile :: profile where
  "aliceProfile =
     addInterest ''travel'' (addInterest ''reading'' (addInterest ''hiking''
       (new_Profile alice (Num 28) ''I love hiking and reading.'')))"

definition bobProfile :: profile where
  "bobProfile =
     addInterest ''food'' (addInterest ''travel'' (addInterest ''music''
       (new_Profile bob (Num 32) ''Passionate about music and travel.'')))"

text \<open>The service after the three \<open>createUser\<close> calls of the demonstration.\<close>

definition threeUsers :: DatingService where
  "threeUsers =
     run [CreateUser ''Alice'' ''alice@example.com'' ''password123'',
          CreateUser ''Bob'' ''bob@example.com'' ''password456'',
          CreateUser ''Charlie'' ''charlie@example.com'' ''password789''] new_DatingService"

text \<open>
  A profile built on a user object whose id is NaN (\<open>new User(NaN, ...)\<close>), and a
  user object that was never created through the service.
\<close>

definition nanProfile :: profile where
  "nanProfile = new_Profile (alice\<lparr>user_id := NaN\<rparr>) (Num 28) ''I love hiking and reading.''"

definition stranger :: user where
  "stranger = \<lparr>user_id = Num 99, name = ''Mallory'', email = ''mallory@example.com'',
                password = ''secret''\<rparr>"

text \<open>
  The service after the two \<open>sendMessage\<close> calls of the demonstration, with the clock
  at 1 and at 2, and the two messages they store.
\<close>

definition twoMessages :: DatingService where
  "twoMessages =
     run [SendMessage 1 alice (Num 2) ''Hi Bob, I noticed we both like traveling!'',
          SendMessage 2 bob (Num 3) ''Hey Charlie, want to grab dinner sometime?'']
       threeUsers"

definition messageToBob :: message where
  "messageToBob = \<lparr>sender = alice, recipient = bob,
     content = ''Hi Bob, I noticed we both like traveling!'', timestamp = 1\<rparr>"

definition messageToCharlie :: message where
  "messageToCharlie = \<lparr>sender = bob, recipient = charlie,
     content = ''Hey Charlie, want to grab dinner sometime?'', timestamp = 2\<rparr>"

text \<open>
  A sender object whose id is NaN, and the service after the three users are created and
  this sender sends a message to the user with the id 2.
\<close>

definition nanSender :: user where
  "nanSender = stranger\<lparr>user_id := NaN\<rparr>"

definition nanSenderService :: DatingService where
  "nanSenderService = run [SendMessage 7 nanSender (Num 2) ''hi''] threeUsers"

subsection \<open>The invariant of the user store\<close>

text \<open>The ids of the stored users, in store order, are 1, 2, ..., the number of users.\<close>

definition ids_in_order :: "DatingService \<Rightarrow> bool" where
  "ids_in_order s = (map user_id (users s) = map of_length [1..<length (users s) + 1])"

section \<open>Properties\<close>

subsection \<open>The values of the demonstration, evaluated\<close>

lemma alice_eq:
  "alice = \<lparr>user_id = Num 1, name = ''Alice'', email = ''alice@example.com'',
             password = ''password123''\<rparr>"
  by (simp add: alice_def createUser_def new_DatingService_def of_length_def Let_def)

lemma bob_eq:
  "bob = \<lparr>user_id = Num 2, name = ''Bob'', email = ''bob@example.com'',
           password = ''password456''\<rparr>"
  by (simp add: bob_def createUser_def new_DatingService_def of_length_def Let_def)

lemma charlie_eq:
  "charlie = \<lparr>user_id = Num 3, name = ''Charlie'', email = ''charlie@example.com'',
               password = ''password789''\<rparr>"
  by (simp add: charlie_def createUser_def new_DatingService_def of_length_def Let_def)

lemma threeUsers_eq:
  "threeUsers = \<lparr>users = [alice, bob, charlie], profiles = [], messages = []\<rparr>"
  by (simp add: threeUsers_def alice_eq bob_eq charlie_eq createUser_def
      new_DatingService_def of_length_def Let_def)

lemma aliceProfile_interests: "interests aliceProfile = [''hiking'', ''reading'', ''travel'']"
  by (simp add: aliceProfile_def addInterest_def new_Profile_def)

lemma bobProfile_interests: "interests bobProfile = [''music'', ''travel'', ''food'']"
  by (simp add: bobProfile_def addInterest_def new_Profile_def)

lemma user_aliceProfile: "user aliceProfile = alice"
  by (simp add: aliceProfile_def addInterest_def new_Profile_def)

lemma user_bobProfile: "user bobProfile = bob"
  by (simp add: bobProfile_def addInterest_def new_Profile_def)

lemma twoMessages_eq:
  "twoMessages = \<lparr>users = [alice, bob, charlie], profiles = [],
                   messages = [messageToBob, messageToCharlie]\<rparr>"
  by (simp add: twoMessages_def threeUsers_eq sendMessage_def Let_def number_eq_def
      alice_eq bob_eq charlie_eq messageToBob_def messageToCharlie_def)

lemma nanSenderService_messages:
  "messages nanSenderService =
     [\<lparr>sender = nanSender, recipient = bob, content = ''hi'', timestamp = 7\<rparr>]"
  by (simp add: nanSenderService_def threeUsers_eq sendMessage_def Let_def number_eq_def
      alice_eq bob_eq charlie_eq)

subsection \<open>Strict equality of numbers\<close>

text \<open>Against a number that is not NaN, \<open>===\<close> is equality.\<close>

lemma number_eq_plain: "b \<noteq> NaN \<Longrightarrow> number_eq a b = (a = b)"
  by (auto simp add: number_eq_def)

subsection \<open>Counting with a filter\<close>

lemma count_list_filter:
  "count_list (filter P xs) x = (if P x then count_list xs x else 0)"
  by (induction xs) auto

lemma length_filter_sum:
  "length (filter P xs) = (\<Sum>x \<in> {x \<in> set xs. P x}. count_list xs x)"
proof -
  have "length (filter P xs) = sum (count_list (filter P xs)) (set (filter P xs))"
    by (simp add: sum_count_set)
  also have "\<dots> = (\<Sum>x \<in> {x \<in> set xs. P x}. count_list xs x)"
    by (rule sum.cong) (auto simp: count_list_filter)
  finally show ?thesis .
qed

lemma match_sum:
  "match a b =
     (\<Sum>x \<in> set (interests a) \<inter> set (interests b). count_list (interests a) x)"
proof -
  have "{x \<in> set (interests a). x \<in> set (interests b)} =
          set (interests a) \<inter> set (interests b)"
    by auto
  then show ?thesis
    by (simp add: match_def commonInterests_def length_filter_sum)
qed

lemma match_card:
  "distinct (interests a) \<Longrightarrow>
     match a b = card (set (interests a) \<inter> set (interests b))"
  by (simp add: match_def commonInterests_def distinct_length_filter Int_commute)

subsection \<open>The match score\<close>

text \<open>
  C8. For the profiles with the interest lists [hiking, reading, travel] and
  [music, travel, food], whatever their other fields, the match score is 1 in both
  directions, and the one common interest is "travel".
\<close>

theorem match_example:
  "match (a\<lparr>interests := [''hiking'', ''reading'', ''travel'']\<rparr>)
         (b\<lparr>interests := [''music'', ''travel'', ''food'']\<rparr>) = 1
   \<and> match (b\<lparr>interests := [''music'', ''travel'', ''food'']\<rparr>)
           (a\<lparr>interests := [''hiking'', ''reading'', ''travel'']\<rparr>) = 1
   \<and> commonInterests (a\<lparr>interests := [''hiking'', ''reading'', ''travel'']\<rparr>)
                      (b\<lparr>interests := [''music'', ''travel'', ''food'']\<rparr>) = [''travel'']
   \<and> commonInterests (b\<lparr>interests := [''music'', ''travel'', ''food'']\<rparr>)
                      (a\<lparr>interests := [''hiking'', ''reading'', ''travel'']\<rparr>) = [''travel'']"
  by (simp add: match_def commonInterests_def)

text \<open>
  C1, as stated, fails: the score counts the entries of the caller's own list, so an
  interest that one profile lists twice and the other once is counted twice in one
  direction and once in the other.
\<close>

theorem match_not_symmetric_counterexample:
  "match (addInterest ''travel'' aliceProfile) bobProfile
     \<noteq> match bobProfile (addInterest ''travel'' aliceProfile)"
  by (simp add: match_def commonInterests_def addInterest_def
      aliceProfile_interests bobProfile_interests)

text \<open>
  C1, amended. For every pair of profiles A and B whose interest lists are both free of
  duplicates, A.match(B) equals B.match(A).
\<close>

theorem match_symmetric_distinct:
  assumes "distinct (interests a)" and "distinct (interests b)"
  shows "match a b = match b a"
proof -
  have "match a b = card (set (interests a) \<inter> set (interests b))"
    using assms(1) by (rule match_card)
  moreover have "match b a = card (set (interests b) \<inter> set (interests a))"
    using assms(2) by (rule match_card)
  ultimately show ?thesis
    by (simp add: Int_commute)
qed

theorem match_symmetric_distinct_witness:
  "distinct (interests aliceProfile) \<and> distinct (interests bobProfile)
   \<and> match aliceProfile bobProfile = match bobProfile aliceProfile
   \<and> match aliceProfile bobProfile = 1"
proof -
  have da: "distinct (interests aliceProfile)"
    by (simp add: aliceProfile_interests)
  have db: "distinct (interests bobProfile)"
    by (simp add: bobProfile_interests)
  have "match aliceProfile bobProfile = 1"
    by (simp add: match_def commonInterests_def aliceProfile_interests bobProfile_interests)
  with da db match_symmetric_distinct [OF da db] show ?thesis
    by simp
qed

text \<open>
  C6, as stated, fails: with "travel" twice in A's list and once in B's, one string is
  common to the two lists and the score is 2.
\<close>

theorem match_not_distinct_count_counterexample:
  "match (addInterest ''travel'' aliceProfile) bobProfile
     \<noteq> card (set (interests (addInterest ''travel'' aliceProfile))
              \<inter> set (interests bobProfile))"
proof -
  have "match (addInterest ''travel'' aliceProfile) bobProfile = 2"
    by (simp add: match_def commonInterests_def addInterest_def
        aliceProfile_interests bobProfile_interests)
  moreover have "set (interests (addInterest ''travel'' aliceProfile))
                   \<inter> set (interests bobProfile) = {''travel''}"
    by (auto simp add: addInterest_def aliceProfile_interests bobProfile_interests)
  ultimately show ?thesis
    by simp
qed

text \<open>
  C6, amended. A.match(B) is the number of entries of A's interest list, each repetition
  counted, whose string occurs in B's list: the sum, over the strings common to both
  lists, of the number of times A lists the string. When A's list is free of duplicates
  this is the number of distinct strings present in both lists, whether or not B's list
  has duplicates.
\<close>

theorem match_counts_entries:
  "match a b =
     (\<Sum>x \<in> set (interests a) \<inter> set (interests b). count_list (interests a) x)
   \<and> (distinct (interests a) \<longrightarrow>
        match a b = card (set (interests a) \<inter> set (interests b)))"
  using match_sum [of a b] match_card [of a b] by simp

theorem match_counts_entries_witness:
  "distinct (interests aliceProfile)
   \<and> match aliceProfile (addInterest ''travel'' bobProfile)
       = card (set (interests aliceProfile)
                \<inter> set (interests (addInterest ''travel'' bobProfile)))
   \<and> match aliceProfile (addInterest ''travel'' bobProfile) = 1"
proof -
  have da: "distinct (interests aliceProfile)"
    by (simp add: aliceProfile_interests)
  have "match aliceProfile (addInterest ''travel'' bobProfile) = 1"
    by (simp add: match_def commonInterests_def addInterest_def
        aliceProfile_interests bobProfile_interests)
  with da match_counts_entries [of aliceProfile "addInterest ''travel'' bobProfile"]
  show ?thesis
    by simp
qed

subsection \<open>MatchMaker.findMatches\<close>

lemma findMatches_filter:
  "findMatches p cs m =
     filter (\<lambda>c. \<not> number_eq (user_id (user c)) (user_id (user p))
                \<and> number_ge (of_length (match p c)) m) cs"
  by (simp add: findMatches_def filter_map comp_def)

text \<open>
  C2, as stated, fails for a profile whose user id is NaN: \<open>NaN !== NaN\<close> holds, so
  findMatches(p, [p], 0) returns the candidate p, whose user id is p's own and so does
  not differ from it.
\<close>

theorem findMatches_nan_id_counterexample:
  "findMatches nanProfile [nanProfile] (Num 0) = [nanProfile]
   \<and> filter (\<lambda>c. user_id (user c) \<noteq> user_id (user nanProfile)
                  \<and> number_ge (of_length (match nanProfile c)) (Num 0)) [nanProfile] = []"
  by (simp add: findMatches_filter nanProfile_def new_Profile_def number_eq_def
      of_length_def match_def commonInterests_def)

text \<open>
  C2, amended. For every profile p whose user id is not NaN, every candidate list and
  every threshold minScore, findMatches(p, candidates, minScore) is the candidate list
  filtered, in place, by: the candidate's user id differs from p's, and the score
  p.match(candidate) is \<open>>=\<close> minScore. The result is a subsequence of the input: the
  kept candidates stand in their input order, and nothing is sorted by score.
\<close>

theorem findMatches_exact:
  assumes "user_id (user p) \<noteq> NaN"
  shows "findMatches p cs m =
           filter (\<lambda>c. user_id (user c) \<noteq> user_id (user p)
                      \<and> number_ge (of_length (match p c)) m) cs
         \<and> subseq (findMatches p cs m) cs"
  using assms by (simp add: findMatches_filter number_eq_plain)

theorem findMatches_exact_witness:
  "user_id (user aliceProfile) \<noteq> NaN
   \<and> findMatches aliceProfile [nanProfile, aliceProfile, bobProfile] (Num 1) = [bobProfile]
   \<and> findMatches aliceProfile [bobProfile, aliceProfile, nanProfile] (Num 0)
       = [bobProfile, nanProfile]"
proof -
  have h: "user_id (user aliceProfile) \<noteq> NaN"
    by (simp add: user_aliceProfile alice_eq)
  have n: "user nanProfile = alice\<lparr>user_id := NaN\<rparr>" "interests nanProfile = []"
    by (simp_all add: nanProfile_def new_Profile_def)
  have 1: "filter (\<lambda>c. user_id (user c) \<noteq> user_id (user aliceProfile)
                      \<and> number_ge (of_length (match aliceProfile c)) (Num 1))
             [nanProfile, aliceProfile, bobProfile] = [bobProfile]"
    by (simp add: user_aliceProfile user_bobProfile n alice_eq bob_eq of_length_def
        match_def commonInterests_def aliceProfile_interests bobProfile_interests)
  have 2: "filter (\<lambda>c. user_id (user c) \<noteq> user_id (user aliceProfile)
                      \<and> number_ge (of_length (match aliceProfile c)) (Num 0))
             [bobProfile, aliceProfile, nanProfile] = [bobProfile, nanProfile]"
    by (simp add: user_aliceProfile user_bobProfile n alice_eq bob_eq of_length_def
        match_def commonInterests_def aliceProfile_interests bobProfile_interests)
  from h 1 2
    findMatches_exact [OF h, of "[nanProfile, aliceProfile, bobProfile]" "Num 1"]
    findMatches_exact [OF h, of "[bobProfile, aliceProfile, nanProfile]" "Num 0"]
  show ?thesis
    by simp
qed

text \<open>
  C7, as stated, fails for a profile whose user id is NaN: \<open>NaN !== NaN\<close> holds, so the
  id test does not drop the profile, and its score with itself reaches the threshold 0.
\<close>

theorem findMatches_nan_self_counterexample:
  "nanProfile \<in> set (findMatches nanProfile [nanProfile] (Num 0))"
  by (simp add: findMatches_filter nanProfile_def new_Profile_def number_eq_def
      of_length_def match_def commonInterests_def)

text \<open>
  C7, amended. For every profile p whose user id is not NaN, every candidate list and
  every threshold, p is not an element of findMatches(p, candidates, minScore): also
  when the candidate list contains p, and also with the threshold 0.
\<close>

theorem findMatches_excludes_self:
  "user_id (user p) \<noteq> NaN \<Longrightarrow> p \<notin> set (findMatches p cs m)"
  by (simp add: findMatches_filter number_eq_def)

theorem findMatches_excludes_self_witness:
  "user_id (user aliceProfile) \<noteq> NaN
   \<and> aliceProfile \<notin> set (findMatches aliceProfile [aliceProfile, bobProfile] (Num 0))
   \<and> findMatches aliceProfile [aliceProfile, bobProfile] (Num 0) = [bobProfile]"
proof -
  have ua: "user aliceProfile = alice"
    by (simp add: aliceProfile_def addInterest_def new_Profile_def)
  have ub: "user bobProfile = bob"
    by (simp add: bobProfile_def addInterest_def new_Profile_def)
  have h: "user_id (user aliceProfile) \<noteq> NaN"
    by (simp add: ua alice_eq)
  have "findMatches aliceProfile [aliceProfile, bobProfile] (Num 0) = [bobProfile]"
    by (simp add: findMatches_filter ua ub alice_eq bob_eq number_eq_def of_length_def
        match_def commonInterests_def aliceProfile_interests bobProfile_interests)
  with h findMatches_excludes_self [OF h, of "[aliceProfile, bobProfile]" "Num 0"]
  show ?thesis
    by simp
qed

subsection \<open>DatingService.sendMessage and getMessages\<close>

lemma find_unknown:
  "\<forall>u \<in> set xs. \<not> number_eq (user_id u) rid \<Longrightarrow>
     List.find (\<lambda>u. number_eq (user_id u) rid) xs = None"
  by (simp add: find_None_iff)

lemma find_known:
  "\<exists>u \<in> set xs. number_eq (user_id u) rid \<Longrightarrow>
     \<exists>r \<in> set xs. number_eq (user_id r) rid
        \<and> List.find (\<lambda>u. number_eq (user_id u) rid) xs = Some r"
  by (induction xs) auto

text \<open>
  C3. When no stored user has the recipient id, sendMessage returns null and the service,
  its message list and the length of that list are what they were. The model of
  sendMessage has no other outcome than a message or null.
\<close>

theorem sendMessage_unknown_recipient:
  "\<forall>u \<in> set (users s). \<not> number_eq (user_id u) rid \<Longrightarrow>
     sendMessage now sd rid c s = (None, s)
   \<and> messages (snd (sendMessage now sd rid c s)) = messages s
   \<and> length (messages (snd (sendMessage now sd rid c s))) = length (messages s)"
  by (simp add: sendMessage_def find_unknown)

theorem sendMessage_unknown_recipient_witness:
  "\<not> (\<exists>u \<in> set (users threeUsers). number_eq (user_id u) (Num 4))
   \<and> sendMessage 0 alice (Num 4) ''hello'' threeUsers = (None, threeUsers)
   \<and> length (messages (snd (sendMessage 0 alice (Num 4) ''hello'' threeUsers))) = 0"
proof -
  have h: "\<forall>u \<in> set (users threeUsers). \<not> number_eq (user_id u) (Num 4)"
    by (simp add: threeUsers_eq alice_eq bob_eq charlie_eq number_eq_def)
  have "messages threeUsers = []"
    by (simp add: threeUsers_eq)
  with h sendMessage_unknown_recipient [OF h, of 0 alice "''hello''"] show ?thesis
    by simp
qed

text \<open>
  C4, as stated, fails for the id NaN: after a sender whose id is NaN has sent a message
  to a stored user, the store holds a message whose sender id is NaN, and getMessages(NaN)
  returns no message, as \<open>NaN === NaN\<close> is false.
\<close>

theorem getMessages_nan_counterexample:
  "fst (getMessages NaN nanSenderService) = []
   \<and> filter (\<lambda>m. user_id (sender m) = NaN \<or> user_id (recipient m) = NaN)
        (messages nanSenderService)
       = [\<lparr>sender = nanSender, recipient = bob, content = ''hi'', timestamp = 7\<rparr>]"
  by (simp add: getMessages_def nanSenderService_messages nanSender_def number_eq_def)

text \<open>
  C4, amended. For every service state and every user id u that is not NaN,
  getMessages(u) is the message store filtered, in place, by "the sender's id or the
  recipient's id equals u": a subsequence of the store. The store is in insertion
  order, as sendMessage puts a new message at its end.
\<close>

theorem getMessages_exact:
  assumes "u \<noteq> NaN"
  shows "fst (getMessages u s) =
           filter (\<lambda>m. user_id (sender m) = u \<or> user_id (recipient m) = u) (messages s)
         \<and> subseq (fst (getMessages u s)) (messages s)
         \<and> messages (snd (sendMessage now sd rid c s)) =
             messages s
               @ (case fst (sendMessage now sd rid c s) of None \<Rightarrow> [] | Some m \<Rightarrow> [m])"
proof -
  have "fst (getMessages u s) =
          filter (\<lambda>m. user_id (sender m) = u \<or> user_id (recipient m) = u) (messages s)"
    using assms by (simp add: getMessages_def number_eq_plain disj_commute)
  moreover have "subseq (fst (getMessages u s)) (messages s)"
    by (simp add: getMessages_def)
  moreover have "messages (snd (sendMessage now sd rid c s)) =
      messages s @ (case fst (sendMessage now sd rid c s) of None \<Rightarrow> [] | Some m \<Rightarrow> [m])"
    by (simp add: sendMessage_def Let_def split: option.splits)
  ultimately show ?thesis
    by simp
qed

theorem getMessages_exact_witness:
  "Num 2 \<noteq> NaN
   \<and> fst (getMessages (Num 2) twoMessages) = [messageToBob, messageToCharlie]
   \<and> fst (getMessages (Num 3) twoMessages) = [messageToCharlie]"
proof -
  have h2: "Num 2 \<noteq> NaN" and h3: "Num 3 \<noteq> NaN"
    by simp_all
  have m: "messages twoMessages = [messageToBob, messageToCharlie]"
    by (simp add: twoMessages_eq)
  have 2: "filter (\<lambda>m. user_id (sender m) = Num 2 \<or> user_id (recipient m) = Num 2)
             (messages twoMessages) = [messageToBob, messageToCharlie]"
    by (simp add: m messageToBob_def messageToCharlie_def alice_eq bob_eq charlie_eq)
  have 3: "filter (\<lambda>m. user_id (sender m) = Num 3 \<or> user_id (recipient m) = Num 3)
             (messages twoMessages) = [messageToCharlie]"
    by (simp add: m messageToBob_def messageToCharlie_def alice_eq bob_eq charlie_eq)
  from h2 2 3
    getMessages_exact [OF h2, of twoMessages]
    getMessages_exact [OF h3, of twoMessages]
  show ?thesis
    by simp
qed

text \<open>
  C10. sendMessage returns null exactly when no stored user has the recipient id. The
  sender is not looked at: for any user value as sender and a recipient id that a stored
  user has, the message from that sender to a stored user with that id is returned, and
  the service after the call is the one before with this message at the end of its
  message list.
\<close>

theorem sendMessage_null_iff:
  "(fst (sendMessage now sd rid c s) = None)
     = (\<forall>u \<in> set (users s). \<not> number_eq (user_id u) rid)
   \<and> ((\<exists>u \<in> set (users s). number_eq (user_id u) rid) \<longrightarrow>
       (\<exists>r \<in> set (users s). number_eq (user_id r) rid
          \<and> sendMessage now sd rid c s =
              (Some \<lparr>sender = sd, recipient = r, content = c, timestamp = now\<rparr>,
               s\<lparr>messages := messages s
                   @ [\<lparr>sender = sd, recipient = r, content = c, timestamp = now\<rparr>]\<rparr>)))"
proof (cases "\<exists>u \<in> set (users s). number_eq (user_id u) rid")
  case True
  then obtain r where r: "r \<in> set (users s)" "number_eq (user_id r) rid"
    "List.find (\<lambda>u. number_eq (user_id u) rid) (users s) = Some r"
    using find_known [of "users s" rid] by blast
  then have "sendMessage now sd rid c s =
      (Some \<lparr>sender = sd, recipient = r, content = c, timestamp = now\<rparr>,
       s\<lparr>messages := messages s
           @ [\<lparr>sender = sd, recipient = r, content = c, timestamp = now\<rparr>]\<rparr>)"
    by (simp add: sendMessage_def Let_def)
  with r(1,2) True show ?thesis
    by auto
next
  case False
  then have "List.find (\<lambda>u. number_eq (user_id u) rid) (users s) = None"
    by (simp add: find_unknown)
  then have "fst (sendMessage now sd rid c s) = None"
    by (simp add: sendMessage_def)
  with False show ?thesis
    by simp
qed

theorem sendMessage_null_iff_witness:
  "stranger \<notin> set (users threeUsers)
   \<and> (\<exists>u \<in> set (users threeUsers). number_eq (user_id u) (Num 2))
   \<and> sendMessage 7 stranger (Num 2) ''hi'' threeUsers =
       (Some \<lparr>sender = stranger, recipient = bob, content = ''hi'', timestamp = 7\<rparr>,
        threeUsers\<lparr>messages :=
          [\<lparr>sender = stranger, recipient = bob, content = ''hi'', timestamp = 7\<rparr>]\<rparr>)"
proof -
  have h: "\<exists>u \<in> set (users threeUsers). number_eq (user_id u) (Num 2)"
    by (simp add: threeUsers_eq alice_eq bob_eq charlie_eq number_eq_def)
  have n: "stranger \<notin> set (users threeUsers)"
    by (simp add: threeUsers_eq alice_eq bob_eq charlie_eq stranger_def)
  have only: "\<And>r. r \<in> set (users threeUsers) \<Longrightarrow> number_eq (user_id r) (Num 2) \<Longrightarrow> r = bob"
    by (auto simp add: threeUsers_eq alice_eq bob_eq charlie_eq number_eq_def)
  have m: "messages threeUsers = []"
    by (simp add: threeUsers_eq)
  from sendMessage_null_iff [of 7 stranger "Num 2" "''hi''" threeUsers] h
  obtain r where "r \<in> set (users threeUsers)" "number_eq (user_id r) (Num 2)"
    "sendMessage 7 stranger (Num 2) ''hi'' threeUsers =
       (Some \<lparr>sender = stranger, recipient = r, content = ''hi'', timestamp = 7\<rparr>,
        threeUsers\<lparr>messages := messages threeUsers
          @ [\<lparr>sender = stranger, recipient = r, content = ''hi'', timestamp = 7\<rparr>]\<rparr>)"
    by blast
  with only [of r] m h n show ?thesis
    by simp
qed

subsection \<open>The stores of the service\<close>

text \<open>
  C9. createUser leaves the profiles and the messages as they were, createProfile the
  users and the messages, sendMessage the users and the profiles; getMessages and
  findMatches leave the whole service as it was.
\<close>

theorem service_frame:
  "profiles (snd (createUser nm em pw s)) = profiles s
   \<and> messages (snd (createUser nm em pw s)) = messages s
   \<and> users (snd (createProfile u a b s)) = users s
   \<and> messages (snd (createProfile u a b s)) = messages s
   \<and> users (snd (sendMessage now sd rid c s)) = users s
   \<and> profiles (snd (sendMessage now sd rid c s)) = profiles s
   \<and> snd (getMessages uid s) = s
   \<and> snd (service_findMatches p m s) = s"
  by (simp add: createUser_def createProfile_def sendMessage_def getMessages_def
      service_findMatches_def Let_def split: option.splits)

subsection \<open>User ids\<close>

lemma ids_new: "ids_in_order new_DatingService"
  by (simp add: ids_in_order_def new_DatingService_def)

lemma ids_createUser: "ids_in_order s \<Longrightarrow> ids_in_order (snd (createUser nm em pw s))"
  by (simp add: ids_in_order_def createUser_def Let_def)

lemma users_exec_other:
  "\<forall>nm em pw. c \<noteq> CreateUser nm em pw \<Longrightarrow> users (exec c s) = users s"
  by (cases c) (simp_all add: createProfile_def sendMessage_def getMessages_def
      service_findMatches_def Let_def split: option.splits)

lemma ids_exec:
  assumes "ids_in_order s"
  shows "ids_in_order (exec c s)"
proof (cases "\<exists>nm em pw. c = CreateUser nm em pw")
  case True
  with assms show ?thesis
    by (auto simp add: ids_createUser)
next
  case False
  then have "users (exec c s) = users s"
    by (simp add: users_exec_other)
  with assms show ?thesis
    by (simp add: ids_in_order_def)
qed

lemma ids_run: "ids_in_order s \<Longrightarrow> ids_in_order (run cs s)"
  by (induction cs arbitrary: s) (simp_all add: ids_exec)

lemma inj_of_length: "inj of_length"
  by (simp add: inj_on_def of_length_def)

lemma ids_distinct: "ids_in_order s \<Longrightarrow> distinct (map user_id (users s))"
  by (simp add: ids_in_order_def distinct_map inj_on_subset [OF inj_of_length])

text \<open>
  C5. In every service state that a sequence of calls reaches from a fresh service, the
  ids of the stored users, in store order, are 1, 2, ..., the number of users, so they
  are pairwise different; createUser gives the new user the id "number of users + 1" and
  puts it at the end of the store. Three createUser calls on a fresh service return users
  with the ids 1, 2, 3, whatever the names, emails and passwords.
\<close>

theorem createUser_ids_in_order:
  "map user_id (users (run cs new_DatingService))
     = map (\<lambda>i. Num (real i)) [1..<length (users (run cs new_DatingService)) + 1]
   \<and> distinct (map user_id (users (run cs new_DatingService)))
   \<and> user_id (fst (createUser nm em pw (run cs new_DatingService)))
       = Num (real (length (users (run cs new_DatingService)) + 1))
   \<and> users (snd (createUser nm em pw (run cs new_DatingService)))
       = users (run cs new_DatingService)
           @ [fst (createUser nm em pw (run cs new_DatingService))]
   \<and> map user_id
        [fst (createUser n1 e1 p1 new_DatingService),
         fst (createUser n2 e2 p2 (snd (createUser n1 e1 p1 new_DatingService))),
         fst (createUser n3 e3 p3
               (snd (createUser n2 e2 p2 (snd (createUser n1 e1 p1 new_DatingService)))))]
       = [Num 1, Num 2, Num 3]"
proof -
  have inv: "ids_in_order (run cs new_DatingService)"
    by (rule ids_run) (rule ids_new)
  have of_len: "of_length = (\<lambda>i. Num (real i))"
    by (simp add: fun_eq_iff of_length_def)
  have a: "map user_id (users (run cs new_DatingService))
     = map (\<lambda>i. Num (real i)) [1..<length (users (run cs new_DatingService)) + 1]"
    using inv unfolding ids_in_order_def of_len .
  have b: "distinct (map user_id (users (run cs new_DatingService)))"
    using inv by (rule ids_distinct)
  have c: "user_id (fst (createUser nm em pw (run cs new_DatingService)))
       = Num (real (length (users (run cs new_DatingService)) + 1))"
    by (simp add: createUser_def Let_def of_length_def)
  have d: "users (snd (createUser nm em pw (run cs new_DatingService)))
       = users (run cs new_DatingService)
           @ [fst (createUser nm em pw (run cs new_DatingService))]"
    by (simp add: createUser_def Let_def)
  have e: "map user_id
        [fst (createUser n1 e1 p1 new_DatingService),
         fst (createUser n2 e2 p2 (snd (createUser n1 e1 p1 new_DatingService))),
         fst (createUser n3 e3 p3
               (snd (createUser n2 e2 p2 (snd (createUser n1 e1 p1 new_DatingService)))))]
       = [Num 1, Num 2, Num 3]"
    by (simp add: createUser_def Let_def of_length_def new_DatingService_def)
  from a b c d e show ?thesis
    by blast
qed

end
